theory Spec2Isabelle
  imports Complex_Main "HOL-Library.Product_Lexorder" "HOL-Library.Sublist"
    "HOL-Library.Multiset" "HOL-Library.Char_ord" "HOL-Library.List_Lexorder"
begin

section \<open>Autoparts ETL pipeline (data-pipeline.py)\<close>

text \<open>
  A shallow embedding of the class \<open>AutopartsETL\<close>: the transform phase
  (\<open>transform_product_data\<close>), the load phase (\<open>load_to_database\<close>), the stock report
  (\<open>generate_stock_report\<close>) and the orchestrator (\<open>run_etl_pipeline\<close>).

  Prices are floating-point columns. Their type is the parameter \<open>'p\<close>, and the two
  floating-point operations the transform applies to them are parameters of the model:
  \<open>margin pv pc\<close> stands for \<open>((pv - pc) / pc * 100).round(2)\<close> and \<open>le pv pc\<close> for
  \<open>pv <= pc\<close>. Stock quantities are Python integers (\<open>int\<close>).
\<close>

subsection \<open>Data frames\<close>

datatype nivel = SIN_STOCK | CRITICO | BAJO | NORMAL

text \<open>
  A row of the frame. A frame fixes which columns exist (\<open>columns\<close>); the field of a
  row whose column is absent carries no information and is never read: every access
  \<open>row['c']\<close> of the source is guarded in the model by a test that \<open>c\<close> is a column,
  with the \<open>KeyError\<close> of the source as the other branch.
\<close>

record 'p row =
  sku :: string
  nombre :: string
  numero_parte :: string
  categoria :: string
  proveedor :: string
  precio_compra :: 'p
  precio_venta :: 'p
  stock_actual :: int
  stock_minimo :: int
  stock_maximo :: int
  ubicacion :: string
  margen_ganancia :: 'p
  nivel_stock :: nivel

record 'p dataframe =
  columns :: "string list"
  rows :: "'p row list"

subsection \<open>Errors and the log\<close>

datatype py_error =
  KeyError string
| ValueError "string list"
| StoreError

datatype level = INFO | WARNING | ERROR

record report_row =
  r_sku :: string
  r_nombre :: string
  r_stock_actual :: int
  r_stock_minimo :: int
  r_ubicacion :: string
  r_estado :: nivel

text \<open>One constructor per log line of the source; the arguments are the values the
  f-string interpolates.\<close>

datatype log_msg =
  Transformando
| SkusDuplicados
| ErrorTransformando py_error
| PreciosInvalidos nat
| TransformacionCompletada
| NoHayConexion
| CategoriaNoEncontrada string
| ProveedorNoEncontrado string
| DatosCargados nat nat
| NivelCantidad nivel nat
| ErrorCargando py_error
| ErrorReporte py_error
| IniciandoPipeline
| Fase1
| Fase2
| Fase3
| Fase4
| PipelineCompletado
| ProductosCriticos nat
| RequierenAtencion
| ItemAtencion report_row
| YMas nat
| NoHayCriticos
| FalloCarga
| ConexionCerrada

type_synonym log = "(level \<times> log_msg) list"

subsection \<open>The store\<close>

type_synonym timestamp = nat

record 'p producto =
  p_sku :: string
  p_nombre :: string
  p_numero_parte :: string
  p_categoria_id :: int
  p_proveedor_id :: int
  p_precio_compra :: 'p
  p_precio_venta :: 'p
  p_garantia_meses :: int
  p_activo :: bool
  p_updated_at :: timestamp

record inventario_row =
  i_producto_sku :: string
  i_stock_actual :: int
  i_stock_minimo :: int
  i_stock_maximo :: int
  i_ubicacion :: string
  i_updated_at :: timestamp

record 'p db =
  categorias :: "(int \<times> string) list"
  proveedores :: "(int \<times> string) list"
  productos :: "'p producto list"
  inventario :: "inventario_row list"

text \<open>The statements the source sends to the store, with their parameters.\<close>

datatype 'p stmt =
  SelectCategorias
| SelectProveedores
| InsertProducto string string string int int 'p 'p int
| InsertInventario string int int int string
| SelectReport

datatype event = Commit | Rollback | Close

text \<open>
  A psycopg2 connection: the committed contents of the store, the contents as the open
  transaction sees them (\<open>working\<close>), and the calls of \<open>commit\<close>, \<open>rollback\<close> and
  \<open>close\<close> made so far.

  Modelled from the spec: the table declarations are not in the repository. What they
  decide is taken as data of the connection: \<open>rejects d s\<close> says that the store raises
  on statement \<open>s\<close> in state \<open>d\<close> (a violated constraint, a lost connection);
  \<open>activo_default\<close> is the column default of \<open>productos.activo\<close>; \<open>now\<close> is
  \<open>CURRENT_TIMESTAMP\<close>, which is also taken as the default of \<open>updated_at\<close>.
\<close>

record 'p connection =
  committed :: "'p db"
  working :: "'p db"
  events :: "event list"
  rejects :: "'p db \<Rightarrow> 'p stmt \<Rightarrow> bool"
  activo_default :: bool
  now :: timestamp

definition commit :: "'p connection \<Rightarrow> 'p connection" where
  "commit c = c\<lparr>committed := working c, events := events c @ [Commit]\<rparr>"

definition rollback :: "'p connection \<Rightarrow> 'p connection" where
  "rollback c = c\<lparr>working := committed c, events := events c @ [Rollback]\<rparr>"

definition close :: "'p connection \<Rightarrow> 'p connection" where
  "close c = c\<lparr>working := committed c, events := events c @ [Close]\<rparr>"

text \<open>\<open>INSERT INTO productos ... ON CONFLICT (sku) DO UPDATE SET nombre, precio_compra,
  precio_venta, updated_at\<close>: the row with the SKU is updated in those four columns, or
  a new row is appended.\<close>

definition upsert_producto ::
  "timestamp \<Rightarrow> bool \<Rightarrow> string \<Rightarrow> string \<Rightarrow> string \<Rightarrow> int \<Rightarrow> int \<Rightarrow> 'p \<Rightarrow> 'p \<Rightarrow> int \<Rightarrow>
   'p producto list \<Rightarrow> 'p producto list" where
  "upsert_producto t act s n np cid pid pc pv g tbl =
     (if s \<in> set (map p_sku tbl)
      then map (\<lambda>p. if p_sku p = s
                     then p\<lparr>p_nombre := n, p_precio_compra := pc, p_precio_venta := pv,
                            p_updated_at := t\<rparr>
                     else p) tbl
      else tbl @ [\<lparr>p_sku = s, p_nombre = n, p_numero_parte = np, p_categoria_id = cid,
                   p_proveedor_id = pid, p_precio_compra = pc, p_precio_venta = pv,
                   p_garantia_meses = g, p_activo = act, p_updated_at = t\<rparr>])"

text \<open>\<open>INSERT INTO inventario ... ON CONFLICT (producto_sku) DO UPDATE SET stock_actual,
  stock_minimo, ubicacion, updated_at\<close>.\<close>

definition upsert_inventario ::
  "timestamp \<Rightarrow> string \<Rightarrow> int \<Rightarrow> int \<Rightarrow> int \<Rightarrow> string \<Rightarrow>
   inventario_row list \<Rightarrow> inventario_row list" where
  "upsert_inventario t s sa sm smax u tbl =
     (if s \<in> set (map i_producto_sku tbl)
      then map (\<lambda>i. if i_producto_sku i = s
                     then i\<lparr>i_stock_actual := sa, i_stock_minimo := sm, i_ubicacion := u,
                            i_updated_at := t\<rparr>
                     else i) tbl
      else tbl @ [\<lparr>i_producto_sku = s, i_stock_actual = sa, i_stock_minimo = sm,
                   i_stock_maximo = smax, i_ubicacion = u, i_updated_at = t\<rparr>])"

text \<open>The effect of a statement on the contents of the store.\<close>

fun apply_stmt :: "timestamp \<Rightarrow> bool \<Rightarrow> 'p stmt \<Rightarrow> 'p db \<Rightarrow> 'p db" where
  "apply_stmt t act (InsertProducto s n np cid pid pc pv g) d =
     d\<lparr>productos := upsert_producto t act s n np cid pid pc pv g (productos d)\<rparr>"
| "apply_stmt t act (InsertInventario s sa sm smax u) d =
     d\<lparr>inventario := upsert_inventario t s sa sm smax u (inventario d)\<rparr>"
| "apply_stmt t act _ d = d"

text \<open>The rows a statement returns to \<open>fetchone\<close> (\<open>RETURNING sku\<close>).\<close>

fun returning :: "'p stmt \<Rightarrow> string list" where
  "returning (InsertProducto s n np cid pid pc pv g) = [s]"
| "returning _ = []"

text \<open>\<open>cursor.rowcount\<close> after the product statement for SKU \<open>s\<close> on the table
  \<open>tbl\<close>: on a conflict one row is updated, without a conflict one row is inserted;
  the store reports one affected row in both cases.\<close>

definition rowcount :: "'p producto list \<Rightarrow> string \<Rightarrow> nat" where
  "rowcount tbl s = (if s \<in> set (map p_sku tbl) then 1 else 1)"

text \<open>\<open>cursor.execute\<close>: raises when the store rejects the statement, and otherwise
  changes the transaction's view of the store.\<close>

definition execute :: "'p connection \<Rightarrow> 'p stmt \<Rightarrow> py_error + 'p connection" where
  "execute c s =
     (if rejects c (working c) s then Inl StoreError
      else Inr (c\<lparr>working := apply_stmt (now c) (activo_default c) s (working c)\<rparr>))"

definition fetchone :: "'a list \<Rightarrow> 'a option" where
  "fetchone rs = (case rs of [] \<Rightarrow> None | r # _ \<Rightarrow> Some r)"

subsection \<open>Transform\<close>

text \<open>\<open>categorizar_stock\<close>, lines 122 to 130.\<close>

definition categorizar_stock :: "'p row \<Rightarrow> nivel" where
  "categorizar_stock r =
     (if stock_actual r = 0 then SIN_STOCK
      else if stock_actual r \<le> stock_minimo r then CRITICO
      else if stock_actual r \<le> stock_minimo r * 2 then BAJO
      else NORMAL)"

text \<open>\<open>Series.duplicated()\<close> (keep the first): the mask of the keys seen before.\<close>

fun duplicated :: "string list \<Rightarrow> string list \<Rightarrow> bool list" where
  "duplicated seen [] = []"
| "duplicated seen (k # ks) = (k \<in> set seen) # duplicated (k # seen) ks"

text \<open>\<open>drop_duplicates(subset=['sku'], keep='first')\<close>: the rows whose mask is
  false, in their order.\<close>

fun drop_duplicates :: "string list \<Rightarrow> 'p row list \<Rightarrow> 'p row list" where
  "drop_duplicates seen [] = []"
| "drop_duplicates seen (r # rs) =
     (if sku r \<in> set seen then drop_duplicates seen rs
      else r # drop_duplicates (sku r # seen) rs)"

definition required_columns :: "string list" where
  "required_columns =
     [''sku'', ''nombre'', ''precio_compra'', ''precio_venta'', ''stock_actual'',
      ''stock_minimo'']"

text \<open>\<open>df['c'] = ...\<close>: the column is replaced, or added last.\<close>

definition assign_column :: "string \<Rightarrow> string list \<Rightarrow> string list" where
  "assign_column c cols = (if c \<in> set cols then cols else cols @ [c])"

text \<open>\<open>transform_product_data\<close>: the log lines written and the frame returned
  (\<open>None\<close> after the \<open>except\<close> branch).\<close>

definition transform_product_data ::
  "('p \<Rightarrow> 'p \<Rightarrow> 'p) \<Rightarrow> ('p \<Rightarrow> 'p \<Rightarrow> bool) \<Rightarrow> 'p dataframe \<Rightarrow> log \<times> 'p dataframe option" where
  "transform_product_data margin le raw_df =
     (let log0 = [(INFO, Transformando)] in
      if ''sku'' \<notin> set (columns raw_df)
      then (log0 @ [(ERROR, ErrorTransformando (KeyError ''sku''))], None)
      else
        let dup = (True \<in> set (duplicated [] (map sku (rows raw_df))));
            log1 = (if dup then log0 @ [(WARNING, SkusDuplicados)] else log0);
            df1 = (if dup then raw_df\<lparr>rows := drop_duplicates [] (rows raw_df)\<rparr> else raw_df);
            missing_columns = filter (\<lambda>col. col \<notin> set (columns df1)) required_columns
        in
          if missing_columns \<noteq> []
          then (log1 @ [(ERROR, ErrorTransformando (ValueError missing_columns))], None)
          else
            let df2 = df1\<lparr>columns := assign_column ''margen_ganancia'' (columns df1),
                          rows := map (\<lambda>r. r\<lparr>margen_ganancia :=
                                                 margin (precio_venta r) (precio_compra r)\<rparr>)
                                      (rows df1)\<rparr>;
                df3 = df2\<lparr>columns := assign_column ''nivel_stock'' (columns df2),
                          rows := map (\<lambda>r. r\<lparr>nivel_stock := categorizar_stock r\<rparr>)
                                      (rows df2)\<rparr>;
                precios_invalidos =
                  filter (\<lambda>r. le (precio_venta r) (precio_compra r)) (rows df3);
                log2 = (if precios_invalidos \<noteq> []
                        then log1 @ [(WARNING, PreciosInvalidos (length precios_invalidos))]
                        else log1)
            in (log2 @ [(INFO, TransformacionCompletada)], Some df3))"

subsection \<open>Load\<close>

text \<open>\<open>{nombre: id for id, nombre in cursor.fetchall()}\<close>: a later row of the same
  name replaces an earlier one.\<close>

definition name_map :: "(int \<times> string) list \<Rightarrow> string \<rightharpoonup> int" where
  "name_map tbl = map_of (rev (map (\<lambda>(i, n). (n, i)) tbl))"

text \<open>\<open>not x\<close> for the result of \<open>dict.get\<close>: \<open>None\<close> and \<open>0\<close> are false.\<close>

definition falsy :: "int option \<Rightarrow> bool" where
  "falsy x = (case x of None \<Rightarrow> True | Some i \<Rightarrow> i = 0)"

text \<open>Lines 169 to 178 for one of the two names: the id used, and whether the warning
  is logged.\<close>

definition resolve :: "(string \<rightharpoonup> int) \<Rightarrow> string \<Rightarrow> int \<times> bool" where
  "resolve m name =
     (let x = m name in if falsy x then (1, True) else (the x, False))"

text \<open>The first column of \<open>cs\<close> that the frame does not have: the \<open>KeyError\<close> of
  \<open>row['c']\<close>, the accesses being evaluated in the order of \<open>cs\<close>.\<close>

definition first_missing :: "string list \<Rightarrow> string list \<Rightarrow> string option" where
  "first_missing cols cs = find (\<lambda>c. c \<notin> set cols) cs"

text \<open>The state of the loop of \<open>load_to_database\<close>.\<close>

record 'p lstate =
  conn :: "'p connection"
  productos_procesados :: nat
  productos_actualizados :: nat
  logged :: log

text \<open>The statement of lines 181 to 197 with its parameters;
  \<open>row.get('numero_parte', '')\<close> is the column when the frame has it.\<close>

definition producto_stmt :: "string list \<Rightarrow> int \<Rightarrow> int \<Rightarrow> 'p row \<Rightarrow> 'p stmt" where
  "producto_stmt cols categoria_id proveedor_id r =
     InsertProducto (sku r) (nombre r)
       (if ''numero_parte'' \<in> set cols then numero_parte r else [])
       categoria_id proveedor_id (precio_compra r) (precio_venta r) 12"

text \<open>The statement of lines 207 to 220 with its parameters;
  \<open>row.get('stock_maximo', row['stock_minimo'] * 4)\<close> is the column when the frame
  has it.\<close>

definition inventario_stmt :: "string list \<Rightarrow> 'p row \<Rightarrow> 'p stmt" where
  "inventario_stmt cols r =
     InsertInventario (sku r) (stock_actual r) (stock_minimo r)
       (if ''stock_maximo'' \<in> set cols then stock_maximo r else stock_minimo r * 4)
       (ubicacion r)"

text \<open>The body of the loop, lines 168 to 220, for one row: the state it leaves, and
  the exception it raises if any.\<close>

definition load_row ::
  "string list \<Rightarrow> (string \<rightharpoonup> int) \<Rightarrow> (string \<rightharpoonup> int) \<Rightarrow> 'p lstate \<Rightarrow> 'p row \<Rightarrow>
   'p lstate \<times> py_error option" where
  "load_row cols categorias_map proveedores_map st r =
     (case first_missing cols [''categoria'', ''proveedor''] of
        Some c \<Rightarrow> (st, Some (KeyError c))
      | None \<Rightarrow>
        let (categoria_id, wc) = resolve categorias_map (categoria r);
            (proveedor_id, wp) = resolve proveedores_map (proveedor r);
            st1 = st\<lparr>logged := logged st
                        @ (if wc then [(WARNING, CategoriaNoEncontrada (categoria r))] else [])
                        @ (if wp then [(WARNING, ProveedorNoEncontrado (proveedor r))] else [])\<rparr>
        in
        (case first_missing cols [''sku'', ''nombre'', ''precio_compra'', ''precio_venta''] of
           Some c \<Rightarrow> (st1, Some (KeyError c))
         | None \<Rightarrow>
           let s1 = producto_stmt cols categoria_id proveedor_id r in
           (case execute (conn st1) s1 of
              Inl e \<Rightarrow> (st1, Some e)
            | Inr c1 \<Rightarrow>
              let st2 =
                    (case fetchone (returning s1) of
                       None \<Rightarrow> st1\<lparr>conn := c1\<rparr>
                     | Some resultado \<Rightarrow>
                         if rowcount (productos (working (conn st1))) (sku r) = 1
                         then st1\<lparr>conn := c1,
                                  productos_procesados := productos_procesados st1 + 1\<rparr>
                         else st1\<lparr>conn := c1,
                                  productos_actualizados := productos_actualizados st1 + 1\<rparr>)
              in
              (case first_missing cols
                      [''sku'', ''stock_actual'', ''stock_minimo'', ''ubicacion''] of
                 Some c \<Rightarrow> (st2, Some (KeyError c))
               | None \<Rightarrow>
                 (case execute (conn st2) (inventario_stmt cols r) of
                    Inl e \<Rightarrow> (st2, Some e)
                  | Inr c2 \<Rightarrow> (st2\<lparr>conn := c2\<rparr>, None))))))"

text \<open>The loop over \<open>iterrows()\<close>: it stops at the first exception.\<close>

fun load_rows ::
  "string list \<Rightarrow> (string \<rightharpoonup> int) \<Rightarrow> (string \<rightharpoonup> int) \<Rightarrow> 'p lstate \<Rightarrow> 'p row list \<Rightarrow>
   'p lstate \<times> py_error option" where
  "load_rows cols cm pm st [] = (st, None)"
| "load_rows cols cm pm st (r # rs) =
     (case load_row cols cm pm st r of
        (st', Some e) \<Rightarrow> (st', Some e)
      | (st', None) \<Rightarrow> load_rows cols cm pm st' rs)"

text \<open>\<open>value_counts()\<close> of the column \<open>nivel_stock\<close>: the levels that occur, each with
  its number of rows. The model lists them in the order of the enumeration; the order
  of the lines in the log is pandas' and no statement below depends on it.\<close>

definition value_counts :: "'p row list \<Rightarrow> (nivel \<times> nat) list" where
  "value_counts rs =
     filter (\<lambda>(n, k). 0 < k)
       (map (\<lambda>n. (n, length (filter (\<lambda>r. nivel_stock r = n) rs)))
            [SIN_STOCK, CRITICO, BAJO, NORMAL])"

text \<open>The \<open>except\<close> branch, lines 234 to 237.\<close>

definition load_failed :: "log \<Rightarrow> 'p connection \<Rightarrow> py_error \<Rightarrow> log \<times> 'p connection option \<times> bool" where
  "load_failed lg c e = (lg @ [(ERROR, ErrorCargando e)], Some (rollback c), False)"

text \<open>\<open>load_to_database\<close>: the log lines written, the connection afterwards and the
  value returned.\<close>

definition load_to_database ::
  "'p connection option \<Rightarrow> 'p dataframe \<Rightarrow> log \<times> 'p connection option \<times> bool" where
  "load_to_database connection transformed_df =
     (case connection of
        None \<Rightarrow> ([(ERROR, NoHayConexion)], None, False)
      | Some c0 \<Rightarrow>
        (case execute c0 SelectCategorias of
           Inl e \<Rightarrow> load_failed [] c0 e
         | Inr c1 \<Rightarrow>
           let categorias_map = name_map (categorias (working c1)) in
           (case execute c1 SelectProveedores of
              Inl e \<Rightarrow> load_failed [] c1 e
            | Inr c2 \<Rightarrow>
              let proveedores_map = name_map (proveedores (working c2)) in
              (case load_rows (columns transformed_df) categorias_map proveedores_map
                      \<lparr>conn = c2, productos_procesados = 0, productos_actualizados = 0,
                       logged = []\<rparr>
                      (rows transformed_df) of
                 (st, Some e) \<Rightarrow> load_failed (logged st) (conn st) e
               | (st, None) \<Rightarrow>
                 let c3 = commit (conn st);
                     lg = logged st @ [(INFO, DatosCargados (productos_procesados st)
                                                            (productos_actualizados st))]
                 in
                 if ''nivel_stock'' \<notin> set (columns transformed_df)
                 then load_failed lg c3 (KeyError ''nivel_stock'')
                 else (lg @ map (\<lambda>(n, k). (INFO, NivelCantidad n k))
                                (value_counts (rows transformed_df)),
                       Some c3, True)))))"

subsection \<open>Report\<close>

text \<open>The \<open>CASE\<close> expression of the query, lines 251 to 255.\<close>

definition estado :: "inventario_row \<Rightarrow> nivel" where
  "estado i =
     (if i_stock_actual i = 0 then SIN_STOCK
      else if i_stock_actual i \<le> i_stock_minimo i then CRITICO
      else NORMAL)"

text \<open>\<open>FROM productos p JOIN inventario i ON p.sku = i.producto_sku\<close>.\<close>

definition joined :: "'p db \<Rightarrow> ('p producto \<times> inventario_row) list" where
  "joined d =
     concat (map (\<lambda>p. map (\<lambda>i. (p, i)) (filter (\<lambda>i. p_sku p = i_producto_sku i) (inventario d)))
                 (productos d))"

definition select_row :: "'p producto \<times> inventario_row \<Rightarrow> report_row" where
  "select_row pr =
     (case pr of (p, i) \<Rightarrow>
        \<lparr>r_sku = p_sku p, r_nombre = p_nombre p, r_stock_actual = i_stock_actual i,
         r_stock_minimo = i_stock_minimo i, r_ubicacion = i_ubicacion i,
         r_estado = estado i\<rparr>)"

text \<open>The query of lines 249 to 260. \<open>collate\<close> is the collation of the column
  \<open>nombre\<close>, a parameter: it maps a name to its sort key.\<close>

definition stock_query :: "(string \<Rightarrow> 'k::linorder) \<Rightarrow> 'p db \<Rightarrow> report_row list" where
  "stock_query collate d =
     sort_key (\<lambda>r. (r_stock_actual r, collate (r_nombre r)))
       (map select_row
          (filter (\<lambda>(p, i). i_stock_actual i \<le> i_stock_minimo i \<and> p_activo p = True)
                  (joined d)))"

text \<open>\<open>generate_stock_report\<close>: \<open>None\<close> without a connection and after an exception.\<close>

definition generate_stock_report ::
  "(string \<Rightarrow> 'k::linorder) \<Rightarrow> 'p connection option \<Rightarrow> log \<times> report_row list option" where
  "generate_stock_report collate connection =
     (case connection of
        None \<Rightarrow> ([], None)
      | Some c \<Rightarrow>
        (case execute c SelectReport of
           Inl e \<Rightarrow> ([(ERROR, ErrorReporte e)], None)
         | Inr c' \<Rightarrow> ([], Some (stock_query collate (working c')))))"

subsection \<open>Orchestrator\<close>

text \<open>The summary of the report, lines 313 to 322.\<close>

definition report_summary :: "report_row list option \<Rightarrow> log" where
  "report_summary reporte =
     (case reporte of
        None \<Rightarrow> [(INFO, NoHayCriticos)]
      | Some [] \<Rightarrow> [(INFO, NoHayCriticos)]
      | Some rs \<Rightarrow>
          [(INFO, ProductosCriticos (length rs)), (INFO, RequierenAtencion)]
          @ map (\<lambda>item. (INFO, ItemAtencion item)) (take 5 rs)
          @ (if 5 < length rs then [(INFO, YMas (length rs - 5))] else []))"

text \<open>
  \<open>run_etl_pipeline\<close>. Its two first collaborators are arguments: \<open>connection\<close> is the
  connection \<open>connect_database\<close> opened (\<open>None\<close> when it failed) and \<open>raw_data\<close> the
  frame \<open>extract_inventory_data\<close> returned (\<open>None\<close> when it failed). The result is the
  log, the connection as the \<open>finally\<close> clause leaves it, and the value returned. The
  separator lines and the line with the elapsed time are left out of the log.
\<close>

definition run_etl_pipeline ::
  "('p \<Rightarrow> 'p \<Rightarrow> 'p) \<Rightarrow> ('p \<Rightarrow> 'p \<Rightarrow> bool) \<Rightarrow> (string \<Rightarrow> 'k::linorder) \<Rightarrow>
   'p connection option \<Rightarrow> 'p dataframe option \<Rightarrow> log \<times> 'p connection option \<times> bool" where
  "run_etl_pipeline margin le collate connection raw_data =
     (let log0 = [(INFO, IniciandoPipeline)] in
      case connection of
        None \<Rightarrow> (log0, None, False)
      | Some c \<Rightarrow>
        (case raw_data of
           None \<Rightarrow> (log0 @ [(INFO, Fase1), (INFO, ConexionCerrada)], Some (close c), False)
         | Some raw \<Rightarrow>
           (case transform_product_data margin le raw of
              (lt, None) \<Rightarrow>
                (log0 @ [(INFO, Fase1), (INFO, Fase2)] @ lt @ [(INFO, ConexionCerrada)],
                 Some (close c), False)
            | (lt, Some transformed_data) \<Rightarrow>
              (case load_to_database (Some c) transformed_data of
                 (ll, c', success) \<Rightarrow>
                   let log1 = log0 @ [(INFO, Fase1), (INFO, Fase2)] @ lt @ [(INFO, Fase3)] @ ll in
                   if success
                   then (case generate_stock_report collate c' of
                           (lr, reporte) \<Rightarrow>
                             (log1 @ [(INFO, Fase4)] @ lr @ [(INFO, PipelineCompletado)]
                                @ report_summary reporte @ [(INFO, ConexionCerrada)],
                              map_option close c', True))
                   else (log1 @ [(ERROR, FalloCarga)] @ [(INFO, ConexionCerrada)],
                         map_option close c', False)))))"

subsection \<open>Concrete data\<close>

text \<open>An instance of the parameters, for the evaluations below: prices as rationals,
  the margin without rounding.\<close>

definition ex_margin :: "rat \<Rightarrow> rat \<Rightarrow> rat" where
  "ex_margin pv pc = (pv - pc) / pc * 100"

definition ex_le :: "rat \<Rightarrow> rat \<Rightarrow> bool" where
  "ex_le pv pc = (pv \<le> pc)"

definition mk_row ::
  "string \<Rightarrow> string \<Rightarrow> string \<Rightarrow> string \<Rightarrow> rat \<Rightarrow> rat \<Rightarrow> int \<Rightarrow> int \<Rightarrow> rat row" where
  "mk_row s n cat prov pc pv sa sm =
     \<lparr>sku = s, nombre = n, numero_parte = ''FT-123'', categoria = cat, proveedor = prov,
      precio_compra = pc, precio_venta = pv, stock_actual = sa, stock_minimo = sm,
      stock_maximo = 0, ubicacion = ''A1-02'', margen_ganancia = 0, nivel_stock = NORMAL\<rparr>"

text \<open>The columns of the sample data of \<open>extract_inventory_data\<close>.\<close>

definition ex_columns :: "string list" where
  "ex_columns =
     [''sku'', ''nombre'', ''numero_parte'', ''categoria'', ''precio_compra'',
      ''precio_venta'', ''proveedor'', ''stock_actual'', ''stock_minimo'', ''ubicacion'']"

definition ex_r1 :: "rat row" where
  "ex_r1 = mk_row ''AP001'' ''Filtro Aceite Toyota Corolla'' ''Filtros'' ''AutoParts Supply''
             (17 / 2) 12 25 10"

definition ex_r2 :: "rat row" where
  "ex_r2 = mk_row ''AP002'' ''Pastillas Freno Delanteras Nissan'' ''Frenos''
             ''Brake Systems MX'' 45 65 5 5"

definition ex_r3 :: "rat row" where
  "ex_r3 = mk_row ''AP003'' ''Bateria 12V 60Ah Universal'' ''Exotic'' ''MotorTech''
             120 180 6 3"

definition ex_raw :: "rat dataframe" where
  "ex_raw = \<lparr>columns = ex_columns, rows = [ex_r1, ex_r2, ex_r3]\<rparr>"

definition ex_transformed :: "rat dataframe" where
  "ex_transformed =
     \<lparr>columns = ex_columns @ [''margen_ganancia'', ''nivel_stock''],
      rows = [ex_r1\<lparr>margen_ganancia := 700 / 17, nivel_stock := NORMAL\<rparr>,
              ex_r2\<lparr>margen_ganancia := 400 / 9, nivel_stock := CRITICO\<rparr>,
              ex_r3\<lparr>margen_ganancia := 50, nivel_stock := BAJO\<rparr>]\<rparr>"

text \<open>The columns \<open>load_to_database\<close> reads with \<open>row['c']\<close>.\<close>

definition load_columns :: "string list" where
  "load_columns =
     [''categoria'', ''proveedor'', ''sku'', ''nombre'', ''precio_compra'',
      ''precio_venta'', ''stock_actual'', ''stock_minimo'', ''ubicacion'']"

definition ex_db :: "rat db" where
  "ex_db =
     \<lparr>categorias = [(1, ''General''), (2, ''Filtros''), (0, ''Frenos'')],
      proveedores = [(1, ''AutoParts Supply''), (0, ''Brake Systems MX''), (3, ''MotorTech'')],
      productos = [], inventario = []\<rparr>"

definition ex_conn :: "rat connection" where
  "ex_conn =
     \<lparr>committed = ex_db, working = ex_db, events = [], rejects = (\<lambda>d s. False),
      activo_default = True, now = 100\<rparr>"

definition ex_st :: "rat lstate" where
  "ex_st =
     \<lparr>conn = ex_conn, productos_procesados = 0, productos_actualizados = 0, logged = []\<rparr>"


subsection \<open>Notions for the statements about the load\<close>








text \<open>The store after \<open>ex_transformed\<close> has been loaded into \<open>ex_db\<close> at time 100,
  and the log of that load.\<close>

definition mk_producto :: "string \<Rightarrow> string \<Rightarrow> int \<Rightarrow> int \<Rightarrow> rat \<Rightarrow> rat \<Rightarrow> rat producto" where
  "mk_producto s n cid pid pc pv =
     \<lparr>p_sku = s, p_nombre = n, p_numero_parte = ''FT-123'', p_categoria_id = cid,
      p_proveedor_id = pid, p_precio_compra = pc, p_precio_venta = pv, p_garantia_meses = 12,
      p_activo = True, p_updated_at = 100\<rparr>"

definition mk_inventario :: "string \<Rightarrow> int \<Rightarrow> int \<Rightarrow> int \<Rightarrow> inventario_row" where
  "mk_inventario s sa sm smax =
     \<lparr>i_producto_sku = s, i_stock_actual = sa, i_stock_minimo = sm, i_stock_maximo = smax,
      i_ubicacion = ''A1-02'', i_updated_at = 100\<rparr>"

definition ex_loaded_db :: "rat db" where
  "ex_loaded_db =
     ex_db\<lparr>productos :=
             [mk_producto ''AP001'' ''Filtro Aceite Toyota Corolla'' 2 1 (17 / 2) 12,
              mk_producto ''AP002'' ''Pastillas Freno Delanteras Nissan'' 1 1 45 65,
              mk_producto ''AP003'' ''Bateria 12V 60Ah Universal'' 1 3 120 180],
           inventario :=
             [mk_inventario ''AP001'' 25 10 40, mk_inventario ''AP002'' 5 5 20,
              mk_inventario ''AP003'' 6 3 12]\<rparr>"

definition ex_load_log :: log where
  "ex_load_log =
     [(WARNING, CategoriaNoEncontrada ''Frenos''),
      (WARNING, ProveedorNoEncontrado ''Brake Systems MX''),
      (WARNING, CategoriaNoEncontrada ''Exotic''),
      (INFO, DatosCargados 3 0),
      (INFO, NivelCantidad CRITICO 1), (INFO, NivelCantidad BAJO 1),
      (INFO, NivelCantidad NORMAL 1)]"

definition ex_loaded :: "rat connection" where
  "ex_loaded =
     ex_conn\<lparr>committed := ex_loaded_db, working := ex_loaded_db, events := [Commit]\<rparr>"

text \<open>Frames that lack required columns: \<open>sku\<close> and \<open>nombre\<close>, and \<open>nombre\<close> alone.\<close>

definition ex_no_sku :: "rat dataframe" where
  "ex_no_sku =
     \<lparr>columns = [''numero_parte'', ''categoria'', ''precio_compra'', ''precio_venta'',
                 ''proveedor'', ''stock_actual'', ''stock_minimo'', ''ubicacion''],
      rows = [ex_r1, ex_r2]\<rparr>"

definition ex_no_nombre :: "rat dataframe" where
  "ex_no_nombre =
     \<lparr>columns = [''sku'', ''numero_parte'', ''categoria'', ''precio_compra'',
                 ''precio_venta'', ''proveedor'', ''stock_actual'', ''stock_minimo'',
                 ''ubicacion''],
      rows = [ex_r1, ex_r2]\<rparr>"

subsection \<open>Notions for the statements about the transform\<close>

text \<open>The two derived columns of a row, as lines 117 to 132 compute them.\<close>

definition derive :: "('p \<Rightarrow> 'p \<Rightarrow> 'p) \<Rightarrow> 'p row \<Rightarrow> 'p row" where
  "derive margin r = r\<lparr>margen_ganancia := margin (precio_venta r) (precio_compra r),
                        nivel_stock := categorizar_stock r\<rparr>"

text \<open>Frames with one and with two repeated rows of the SKU \<open>AP001\<close>, the frame the
  transform returns for both, and its log.\<close>

definition ex_r1b :: "rat row" where
  "ex_r1b = mk_row ''AP001'' ''Filtro Aceite (segunda fila)'' ''Filtros'' ''MotorTech'' 9 13 7 10"

definition ex_dup1 :: "rat dataframe" where
  "ex_dup1 = \<lparr>columns = ex_columns, rows = [ex_r1, ex_r1b]\<rparr>"

definition ex_dup2 :: "rat dataframe" where
  "ex_dup2 = \<lparr>columns = ex_columns, rows = [ex_r1, ex_r1b, ex_r1b]\<rparr>"

definition ex_dedup :: "rat dataframe" where
  "ex_dedup = \<lparr>columns = ex_columns @ [''margen_ganancia'', ''nivel_stock''],
      rows = [ex_r1\<lparr>margen_ganancia := 700 / 17, nivel_stock := NORMAL\<rparr>]\<rparr>"

definition ex_dup_log :: log where
  "ex_dup_log = [(INFO, Transformando), (WARNING, SkusDuplicados), (INFO, TransformacionCompletada)]"

subsection \<open>Notions for the statements about the report\<close>







text \<open>A record with a negative current stock, as a CSV file can supply it: the source
  validates the presence of the columns only.\<close>

definition ex_neg :: "rat row" where
  "ex_neg = mk_row ''AP007'' ''Correa Distribucion'' ''Motor'' ''MotorTech'' 20 30 (- 1) 5"

section \<open>Properties\<close>

subsection \<open>Transform\<close>

lemma transform_Some:
  assumes "transform_product_data margin le raw_df = (lg, Some out)"
  shows "rows out =
           map (\<lambda>r. r\<lparr>margen_ganancia := margin (precio_venta r) (precio_compra r),
                       nivel_stock := categorizar_stock r\<rparr>)
               (if True \<in> set (duplicated [] (map sku (rows raw_df)))
                then drop_duplicates [] (rows raw_df) else rows raw_df)"
    and "columns out =
           assign_column ''nivel_stock'' (assign_column ''margen_ganancia'' (columns raw_df))"
    and "set required_columns \<subseteq> set (columns raw_df)"
  using assms
  by (auto simp: transform_product_data_def Let_def categorizar_stock_def filter_empty_conv
           split: if_splits)

lemma transform_ex_raw:
  "transform_product_data ex_margin ex_le ex_raw =
     ([(INFO, Transformando), (INFO, TransformacionCompletada)], Some ex_transformed)"
  by (simp add: transform_product_data_def ex_raw_def ex_transformed_def ex_columns_def
        ex_r1_def ex_r2_def ex_r3_def mk_row_def required_columns_def assign_column_def
        categorizar_stock_def ex_margin_def ex_le_def Let_def)

text \<open>
  C1 as stated fails for a negative current stock: with current stock -1 and minimum
  stock 5 the second test of \<open>categorizar_stock\<close>, which has no lower bound, gives
  \<open>CRITICO\<close>, where the rule of the claim (\<open>CRITICO\<close> only when 0 < current \<le> minimum,
  \<open>NORMAL\<close> otherwise) gives \<open>NORMAL\<close>.
\<close>

theorem negative_stock_is_critico:
  "stock_actual ex_neg = - 1 \<and> stock_minimo ex_neg = 5
   \<and> categorizar_stock ex_neg = CRITICO
   \<and> (if stock_actual ex_neg = 0 then SIN_STOCK
       else if 0 < stock_actual ex_neg \<and> stock_actual ex_neg \<le> stock_minimo ex_neg
            then CRITICO
       else if stock_minimo ex_neg < stock_actual ex_neg
               \<and> stock_actual ex_neg \<le> 2 * stock_minimo ex_neg
            then BAJO
       else NORMAL) = NORMAL
   \<and> \<not> (\<forall>r :: rat row.
          categorizar_stock r =
            (if stock_actual r = 0 then SIN_STOCK
             else if 0 < stock_actual r \<and> stock_actual r \<le> stock_minimo r then CRITICO
             else if stock_minimo r < stock_actual r \<and> stock_actual r \<le> 2 * stock_minimo r
                  then BAJO
             else NORMAL))"
proof -
  have v: "stock_actual ex_neg = - 1" "stock_minimo ex_neg = 5"
    by (simp_all add: ex_neg_def mk_row_def)
  have c: "categorizar_stock ex_neg = CRITICO"
    by (simp add: categorizar_stock_def v)
  have n: "\<not> (\<forall>r :: rat row.
          categorizar_stock r =
            (if stock_actual r = 0 then SIN_STOCK
             else if 0 < stock_actual r \<and> stock_actual r \<le> stock_minimo r then CRITICO
             else if stock_minimo r < stock_actual r \<and> stock_actual r \<le> 2 * stock_minimo r
                  then BAJO
             else NORMAL))"
  proof
    assume "\<forall>r :: rat row.
          categorizar_stock r =
            (if stock_actual r = 0 then SIN_STOCK
             else if 0 < stock_actual r \<and> stock_actual r \<le> stock_minimo r then CRITICO
             else if stock_minimo r < stock_actual r \<and> stock_actual r \<le> 2 * stock_minimo r
                  then BAJO
             else NORMAL)"
    then have "categorizar_stock ex_neg =
            (if stock_actual ex_neg = 0 then SIN_STOCK
             else if 0 < stock_actual ex_neg \<and> stock_actual ex_neg \<le> stock_minimo ex_neg
                  then CRITICO
             else if stock_minimo ex_neg < stock_actual ex_neg
                     \<and> stock_actual ex_neg \<le> 2 * stock_minimo ex_neg
                  then BAJO
             else NORMAL)"
      by (rule spec)
    with c v show False by simp
  qed
  from v c n show ?thesis by simp
qed

text \<open>
  C1, amended. The stock level of a record is a function of its current and minimum
  stock with four tiers, for every pair of integers: \<open>SIN_STOCK\<close> when current = 0;
  \<open>CRITICO\<close> when current is not 0 and current \<le> minimum (so also for a negative current
  stock); \<open>BAJO\<close> when minimum < current \<le> 2 * minimum; \<open>NORMAL\<close> otherwise. For a current
  stock that is not negative this is the rule with \<open>CRITICO\<close> when 0 < current \<le> minimum.
  A positive current stock equal to the minimum is \<open>CRITICO\<close>, one equal to twice the
  minimum is \<open>BAJO\<close>, and every row the transform returns carries the level of its own
  stock figures in the column \<open>nivel_stock\<close>.
\<close>

theorem categorizar_stock_four_tiers:
  "categorizar_stock r =
     (if stock_actual r = 0 then SIN_STOCK
      else if stock_actual r \<le> stock_minimo r then CRITICO
      else if stock_minimo r < stock_actual r \<and> stock_actual r \<le> 2 * stock_minimo r
           then BAJO
      else NORMAL)
   \<and> (0 \<le> stock_actual r \<longrightarrow>
      categorizar_stock r =
        (if stock_actual r = 0 then SIN_STOCK
         else if 0 < stock_actual r \<and> stock_actual r \<le> stock_minimo r then CRITICO
         else if stock_minimo r < stock_actual r \<and> stock_actual r \<le> 2 * stock_minimo r
              then BAJO
         else NORMAL))
   \<and> (0 < stock_actual r \<and> stock_actual r = stock_minimo r \<longrightarrow> categorizar_stock r = CRITICO)
   \<and> (0 < stock_actual r \<and> stock_actual r = 2 * stock_minimo r \<longrightarrow> categorizar_stock r = BAJO)
   \<and> (transform_product_data margin le raw_df = (lg, Some out) \<longrightarrow>
        ''nivel_stock'' \<in> set (columns out) \<and>
        (\<forall>t \<in> set (rows out). nivel_stock t = categorizar_stock t))"
proof -
  have tr: "''nivel_stock'' \<in> set (columns out) \<and>
            (\<forall>t \<in> set (rows out). nivel_stock t = categorizar_stock t)"
    if h: "transform_product_data margin le raw_df = (lg, Some out)"
    using transform_Some(1,2)[OF h]
    by (auto simp: assign_column_def categorizar_stock_def)
  show ?thesis
    using tr by (auto simp: categorizar_stock_def)
qed

theorem categorizar_stock_four_tiers_witness:
  "0 \<le> stock_actual ex_r1 \<and> categorizar_stock ex_r1 = NORMAL
   \<and> 0 < stock_actual ex_r2 \<and> stock_actual ex_r2 = stock_minimo ex_r2
   \<and> categorizar_stock ex_r2 = CRITICO
   \<and> 0 < stock_actual ex_r3 \<and> stock_actual ex_r3 = 2 * stock_minimo ex_r3
   \<and> categorizar_stock ex_r3 = BAJO
   \<and> transform_product_data ex_margin ex_le ex_raw =
       ([(INFO, Transformando), (INFO, TransformacionCompletada)], Some ex_transformed)
   \<and> ''nivel_stock'' \<in> set (columns ex_transformed)
   \<and> map nivel_stock (rows ex_transformed) = map categorizar_stock (rows ex_transformed)
   \<and> map nivel_stock (rows ex_transformed) = [NORMAL, CRITICO, BAJO]"
proof -
  have h2: "0 < stock_actual ex_r2 \<and> stock_actual ex_r2 = stock_minimo ex_r2"
    by (simp add: ex_r2_def mk_row_def)
  have h3: "0 < stock_actual ex_r3 \<and> stock_actual ex_r3 = 2 * stock_minimo ex_r3"
    by (simp add: ex_r3_def mk_row_def)
  have h1: "0 \<le> stock_actual ex_r1" "stock_actual ex_r1 = 25" "stock_minimo ex_r1 = 10"
    by (simp_all add: ex_r1_def mk_row_def)
  note t1 = categorizar_stock_four_tiers
    [of ex_r1 ex_margin ex_le ex_raw "[(INFO, Transformando), (INFO, TransformacionCompletada)]"
        ex_transformed]
  have lv: "map nivel_stock (rows ex_transformed) = [NORMAL, CRITICO, BAJO]"
    by (simp add: ex_transformed_def)
  note t2 = categorizar_stock_four_tiers
    [of ex_r2 ex_margin ex_le ex_raw "[(INFO, Transformando), (INFO, TransformacionCompletada)]"
        ex_transformed]
  note t3 = categorizar_stock_four_tiers
    [of ex_r3 ex_margin ex_le ex_raw "[(INFO, Transformando), (INFO, TransformacionCompletada)]"
        ex_transformed]
  show ?thesis
    using t1 t2 t3 h1 h2 h3 lv transform_ex_raw by (simp add: ex_transformed_def)
qed

subsection \<open>Name resolution\<close>

lemma name_map_None: "name_map tbl name = None \<longleftrightarrow> name \<notin> snd ` set tbl"
  by (force simp: name_map_def map_of_eq_None_iff image_iff)

text \<open>A row of a frame that has the columns the load reads, on a store that accepts
  every statement: both upserts are executed and the row counts as new.\<close>

lemma load_row_ok:
  assumes cols: "set load_columns \<subseteq> set cols"
      and acc: "\<forall>d s. \<not> rejects (conn st) d s"
  shows "load_row cols cm pm st r =
     (st\<lparr>conn := (conn st)\<lparr>working :=
             apply_stmt (now (conn st)) (activo_default (conn st)) (inventario_stmt cols r)
               (apply_stmt (now (conn st)) (activo_default (conn st))
                  (producto_stmt cols (fst (resolve cm (categoria r)))
                     (fst (resolve pm (proveedor r))) r)
                  (working (conn st)))\<rparr>,
          productos_procesados := productos_procesados st + 1,
          logged := logged st
             @ (if snd (resolve cm (categoria r))
                then [(WARNING, CategoriaNoEncontrada (categoria r))] else [])
             @ (if snd (resolve pm (proveedor r))
                then [(WARNING, ProveedorNoEncontrado (proveedor r))] else [])\<rparr>, None)"
  using cols acc
  by (simp add: load_row_def load_columns_def first_missing_def execute_def Let_def
      producto_stmt_def inventario_stmt_def fetchone_def rowcount_def split_beta)

lemma ex_cols: "set load_columns \<subseteq> set (columns ex_transformed)"
  by (simp add: load_columns_def ex_transformed_def ex_columns_def)

lemma ex_acc: "\<forall>d s. \<not> rejects (conn ex_st) d s"
  by (simp add: ex_st_def ex_conn_def)

text \<open>
  C8. A category or supplier name that the lookup table of the store does not contain
  resolves to the default id 1 with a warning in the log. Resolution has no failing
  branch: for a frame that has the columns the load reads and a store that accepts the
  statements, the row is loaded (no exception), both upserts being executed with the
  resolved ids.
\<close>

theorem unknown_name_default:
  assumes cols: "set load_columns \<subseteq> set cols"
      and acc: "\<forall>d s. \<not> rejects (conn st) d s"
  shows "(categoria r \<notin> snd ` set cats \<longrightarrow>
            resolve (name_map cats) (categoria r) = (1, True))
       \<and> (proveedor r \<notin> snd ` set provs \<longrightarrow>
            resolve (name_map provs) (proveedor r) = (1, True))
       \<and> (\<exists>st'. load_row cols (name_map cats) (name_map provs) st r = (st', None)
             \<and> working (conn st') =
                 apply_stmt (now (conn st)) (activo_default (conn st)) (inventario_stmt cols r)
                   (apply_stmt (now (conn st)) (activo_default (conn st))
                      (producto_stmt cols (fst (resolve (name_map cats) (categoria r)))
                         (fst (resolve (name_map provs) (proveedor r))) r)
                      (working (conn st)))
             \<and> (categoria r \<notin> snd ` set cats \<longrightarrow>
                   (WARNING, CategoriaNoEncontrada (categoria r)) \<in> set (logged st'))
             \<and> (proveedor r \<notin> snd ` set provs \<longrightarrow>
                   (WARNING, ProveedorNoEncontrado (proveedor r)) \<in> set (logged st')))"
proof -
  have c: "resolve (name_map cats) (categoria r) = (1, True)"
    if "categoria r \<notin> snd ` set cats"
    using that by (simp add: resolve_def falsy_def name_map_None[symmetric])
  have p: "resolve (name_map provs) (proveedor r) = (1, True)"
    if "proveedor r \<notin> snd ` set provs"
    using that by (simp add: resolve_def falsy_def name_map_None[symmetric])
  show ?thesis
    using c p by (simp add: load_row_ok[OF cols acc])
qed

theorem unknown_name_default_witness:
  "set load_columns \<subseteq> set (columns ex_transformed)
   \<and> categoria ex_r3 \<notin> snd ` set (categorias ex_db)
   \<and> resolve (name_map (categorias ex_db)) (categoria ex_r3) = (1, True)
   \<and> fst (resolve (name_map (proveedores ex_db)) (proveedor ex_r3)) = 3
   \<and> snd (load_row (columns ex_transformed) (name_map (categorias ex_db))
             (name_map (proveedores ex_db)) ex_st ex_r3) = None
   \<and> logged (fst (load_row (columns ex_transformed) (name_map (categorias ex_db))
             (name_map (proveedores ex_db)) ex_st ex_r3))
       = [(WARNING, CategoriaNoEncontrada ''Exotic'')]
   \<and> map p_categoria_id
        (productos (working (conn (fst (load_row (columns ex_transformed)
             (name_map (categorias ex_db)) (name_map (proveedores ex_db)) ex_st ex_r3)))))
       = [1]"
proof -
  have nm: "categoria ex_r3 \<notin> snd ` set (categorias ex_db)"
    by (simp add: ex_r3_def mk_row_def ex_db_def)
  have pv: "resolve (name_map (proveedores ex_db)) (proveedor ex_r3) = (3, False)"
    by (simp add: ex_r3_def mk_row_def ex_db_def name_map_def resolve_def falsy_def)
  have lg: "logged ex_st = []" "categoria ex_r3 = ''Exotic''" "working (conn ex_st) = ex_db"
    by (simp_all add: ex_st_def ex_r3_def mk_row_def ex_conn_def)
  note t = unknown_name_default
    [OF ex_cols ex_acc, of ex_r3 "categorias ex_db" "proveedores ex_db"]
  from t nm have r1: "resolve (name_map (categorias ex_db)) (categoria ex_r3) = (1, True)"
    by blast
  show ?thesis
    using t nm ex_cols pv lg r1
    apply (simp add: load_row_ok[OF ex_cols ex_acc])
    apply (simp add: producto_stmt_def inventario_stmt_def upsert_producto_def ex_db_def)
    done
qed

text \<open>
  C10. The fallback tests the truth value of the mapped id, not the presence of the
  name: a name that the lookup table maps to id 0 resolves to the default id 1 with the
  not-found warning, as an unknown name does, and a name mapped to an id other than 0
  resolves to that id without a warning. The row is loaded with the ids so resolved.
\<close>

theorem zero_id_falls_back:
  assumes cols: "set load_columns \<subseteq> set cols"
      and acc: "\<forall>d s. \<not> rejects (conn st) d s"
  shows "(name_map cats (categoria r) = Some 0 \<longrightarrow>
            resolve (name_map cats) (categoria r) = (1, True))
       \<and> (name_map provs (proveedor r) = Some 0 \<longrightarrow>
            resolve (name_map provs) (proveedor r) = (1, True))
       \<and> (\<forall>i. name_map cats (categoria r) = Some i \<and> i \<noteq> 0 \<longrightarrow>
            resolve (name_map cats) (categoria r) = (i, False))
       \<and> (\<forall>i. name_map provs (proveedor r) = Some i \<and> i \<noteq> 0 \<longrightarrow>
            resolve (name_map provs) (proveedor r) = (i, False))
       \<and> (\<exists>st'. load_row cols (name_map cats) (name_map provs) st r = (st', None)
             \<and> logged st' = logged st
                 @ (if snd (resolve (name_map cats) (categoria r))
                    then [(WARNING, CategoriaNoEncontrada (categoria r))] else [])
                 @ (if snd (resolve (name_map provs) (proveedor r))
                    then [(WARNING, ProveedorNoEncontrado (proveedor r))] else [])
             \<and> working (conn st') =
                 apply_stmt (now (conn st)) (activo_default (conn st)) (inventario_stmt cols r)
                   (apply_stmt (now (conn st)) (activo_default (conn st))
                      (producto_stmt cols (fst (resolve (name_map cats) (categoria r)))
                         (fst (resolve (name_map provs) (proveedor r))) r)
                      (working (conn st))))"
  by (simp add: load_row_ok[OF cols acc] resolve_def falsy_def)

theorem zero_id_falls_back_witness:
  "set load_columns \<subseteq> set (columns ex_transformed)
   \<and> name_map (categorias ex_db) (categoria ex_r2) = Some 0
   \<and> name_map (proveedores ex_db) (proveedor ex_r2) = Some 0
   \<and> resolve (name_map (categorias ex_db)) (categoria ex_r2) = (1, True)
   \<and> resolve (name_map (proveedores ex_db)) (proveedor ex_r2) = (1, True)
   \<and> name_map (categorias ex_db) (categoria ex_r1) = Some 2
   \<and> resolve (name_map (categorias ex_db)) (categoria ex_r1) = (2, False)
   \<and> name_map (proveedores ex_db) (proveedor ex_r3) = Some 3
   \<and> resolve (name_map (proveedores ex_db)) (proveedor ex_r3) = (3, False)
   \<and> snd (load_row (columns ex_transformed) (name_map (categorias ex_db))
             (name_map (proveedores ex_db)) ex_st ex_r2) = None
   \<and> logged (fst (load_row (columns ex_transformed) (name_map (categorias ex_db))
             (name_map (proveedores ex_db)) ex_st ex_r2))
       = [(WARNING, CategoriaNoEncontrada ''Frenos''),
          (WARNING, ProveedorNoEncontrado ''Brake Systems MX'')]"
proof -
  have m2: "name_map (categorias ex_db) (categoria ex_r2) = Some 0"
           "name_map (proveedores ex_db) (proveedor ex_r2) = Some 0"
    by (simp_all add: ex_r2_def mk_row_def ex_db_def name_map_def)
  have m1: "name_map (categorias ex_db) (categoria ex_r1) = Some 2"
    by (simp add: ex_r1_def mk_row_def ex_db_def name_map_def)
  have m3: "name_map (proveedores ex_db) (proveedor ex_r3) = Some 3"
    by (simp add: ex_r3_def mk_row_def ex_db_def name_map_def)
  have lg: "logged ex_st = []" "categoria ex_r2 = ''Frenos''"
           "proveedor ex_r2 = ''Brake Systems MX''"
    by (simp_all add: ex_st_def ex_r2_def mk_row_def)
  note t1 = zero_id_falls_back
    [OF ex_cols ex_acc, of "categorias ex_db" ex_r1 "proveedores ex_db"]
  note t2 = zero_id_falls_back
    [OF ex_cols ex_acc, of "categorias ex_db" ex_r2 "proveedores ex_db"]
  note t3 = zero_id_falls_back
    [OF ex_cols ex_acc, of "categorias ex_db" ex_r3 "proveedores ex_db"]
  have a1: "resolve (name_map (categorias ex_db)) (categoria ex_r1) = (2, False)"
    using t1 m1 by simp
  have a3: "resolve (name_map (proveedores ex_db)) (proveedor ex_r3) = (3, False)"
    using t3 m3 by simp
  have a2: "resolve (name_map (categorias ex_db)) (categoria ex_r2) = (1, True)"
           "resolve (name_map (proveedores ex_db)) (proveedor ex_r2) = (1, True)"
    using t2 m2 by simp_all
  from t2 obtain st' where
    s: "load_row (columns ex_transformed) (name_map (categorias ex_db))
          (name_map (proveedores ex_db)) ex_st ex_r2 = (st', None)"
       "logged st' = logged ex_st
          @ (if snd (resolve (name_map (categorias ex_db)) (categoria ex_r2))
             then [(WARNING, CategoriaNoEncontrada (categoria ex_r2))] else [])
          @ (if snd (resolve (name_map (proveedores ex_db)) (proveedor ex_r2))
             then [(WARNING, ProveedorNoEncontrado (proveedor ex_r2))] else [])"
    by blast
  show ?thesis
    using ex_cols m1 m2 m3 a1 a2 a3 s lg by simp
qed

subsection \<open>Upserts\<close>





subsection \<open>The transaction of the load\<close>
























subsection \<open>The counters of the load\<close>

lemmas ex_eval_defs =
  load_to_database_def ex_conn_def ex_db_def ex_columns_def ex_transformed_def
  ex_r1_def ex_r2_def ex_r3_def
  mk_row_def load_row_def first_missing_def resolve_def falsy_def name_map_def execute_def
  producto_stmt_def inventario_stmt_def fetchone_def rowcount_def Let_def upsert_producto_def
  upsert_inventario_def commit_def value_counts_def ex_loaded_def ex_loaded_db_def
  mk_producto_def mk_inventario_def ex_load_log_def

text \<open>
  C5. The load is run twice with the same frame and the same \<open>CURRENT_TIMESTAMP\<close>. The
  second run finds every SKU in the store and leaves the store as the first run left
  it, but its log line reports 3 new products and 0 updated ones, as the first run's
  does: \<open>rowcount\<close> is 1 for an upsert that updates as for one that inserts, so the
  branch that counts an update is never taken.
\<close>

theorem second_load_counts_every_row_as_new:
  "load_to_database (Some ex_conn) ex_transformed = (ex_load_log, Some ex_loaded, True)
   \<and> map p_sku (productos (working ex_loaded)) = map sku (rows ex_transformed)
   \<and> load_to_database (Some ex_loaded) ex_transformed =
       (ex_load_log, Some (ex_loaded\<lparr>events := [Commit, Commit]\<rparr>), True)
   \<and> (INFO, DatosCargados 3 0) \<in> set ex_load_log"
  by (simp add: ex_eval_defs)

subsection \<open>Missing columns\<close>

text \<open>
  C7. A frame without the columns \<open>sku\<close> and \<open>nombre\<close>: the transform fails and the
  pipeline returns \<open>False\<close> with nothing loaded, but the error raised is the
  \<open>KeyError\<close> of \<open>transformed_df['sku']\<close> at line 106, before the required columns
  are checked, and it names \<open>sku\<close> only. A frame that lacks \<open>nombre\<close> alone reaches the
  check, whose error names the missing column.
\<close>

theorem missing_sku_raises_key_error:
  "transform_product_data ex_margin ex_le ex_no_sku =
     ([(INFO, Transformando), (ERROR, ErrorTransformando (KeyError ''sku''))], None)
   \<and> filter (\<lambda>col. col \<notin> set (columns ex_no_sku)) required_columns = [''sku'', ''nombre'']
   \<and> run_etl_pipeline ex_margin ex_le (length :: string \<Rightarrow> nat) (Some ex_conn)
        (Some ex_no_sku) =
       ([(INFO, IniciandoPipeline), (INFO, Fase1), (INFO, Fase2), (INFO, Transformando),
         (ERROR, ErrorTransformando (KeyError ''sku'')), (INFO, ConexionCerrada)],
        Some (close ex_conn), False)
   \<and> transform_product_data ex_margin ex_le ex_no_nombre =
       ([(INFO, Transformando), (ERROR, ErrorTransformando (ValueError [''nombre'']))], None)"
  by (simp add: run_etl_pipeline_def transform_product_data_def ex_no_sku_def ex_no_nombre_def
        ex_r1_def ex_r2_def mk_row_def required_columns_def)

subsection \<open>Deduplication\<close>

lemma duplicated_any:
  "True \<in> set (duplicated seen ks) \<longleftrightarrow> \<not> distinct ks \<or> set ks \<inter> set seen \<noteq> {}"
  by (induction ks arbitrary: seen) auto

lemma sku_drop_duplicates:
  "set (map sku (drop_duplicates seen rs)) = set (map sku rs) - set seen"
  by (induction rs arbitrary: seen) auto

lemma distinct_drop_duplicates: "distinct (map sku (drop_duplicates seen rs))"
  by (induction rs arbitrary: seen) (auto simp: sku_drop_duplicates simp del: set_map)

lemma drop_duplicates_distinct:
  "distinct (map sku rs) \<Longrightarrow> set (map sku rs) \<inter> set seen = {} \<Longrightarrow> drop_duplicates seen rs = rs"
  by (induction rs arbitrary: seen) auto

lemma drop_duplicates_first:
  "r \<in> set (drop_duplicates seen rs) \<Longrightarrow> find (\<lambda>x. sku x = sku r) rs = Some r"
proof (induction rs arbitrary: seen)
  case Nil
  then show ?case by simp
next
  case (Cons x xs)
  show ?case
  proof (cases "sku x \<in> set seen")
    case True
    with Cons.prems have m: "r \<in> set (drop_duplicates seen xs)" by simp
    then have "sku r \<in> set (map sku (drop_duplicates seen xs))" by simp
    then have "sku r \<notin> set seen" unfolding sku_drop_duplicates by simp
    with True have "sku x \<noteq> sku r" by auto
    with Cons.IH[OF m] show ?thesis by simp
  next
    case False
    with Cons.prems have "r = x \<or> r \<in> set (drop_duplicates (sku x # seen) xs)" by simp
    then show ?thesis
    proof
      assume "r = x" then show ?thesis by simp
    next
      assume m: "r \<in> set (drop_duplicates (sku x # seen) xs)"
      then have "sku r \<in> set (map sku (drop_duplicates (sku x # seen) xs))" by simp
      then have "sku r \<noteq> sku x" unfolding sku_drop_duplicates by simp
      with Cons.IH[OF m] show ?thesis by simp
    qed
  qed
qed

lemma subseq_drop_duplicates: "subseq (drop_duplicates seen rs) rs"
  by (induction rs arbitrary: seen) auto

lemma derive_idem: "derive margin (derive margin r) = derive margin r"
  by (simp add: derive_def categorizar_stock_def)

lemma sku_derive: "sku (derive margin r) = sku r"
  by (simp add: derive_def)

lemma sku_map_derive: "map sku (map (derive margin) rs) = map sku rs"
  by (simp add: sku_derive)

lemma transform_cases:
  "transform_product_data margin le raw_df =
    (if ''sku'' \<notin> set (columns raw_df)
     then ([(INFO, Transformando), (ERROR, ErrorTransformando (KeyError ''sku''))], None)
     else if \<not> set required_columns \<subseteq> set (columns raw_df)
     then ([(INFO, Transformando)]
           @ (if distinct (map sku (rows raw_df)) then [] else [(WARNING, SkusDuplicados)])
           @ [(ERROR, ErrorTransformando
                 (ValueError (filter (\<lambda>col. col \<notin> set (columns raw_df)) required_columns)))],
           None)
     else ([(INFO, Transformando)]
           @ (if distinct (map sku (rows raw_df)) then [] else [(WARNING, SkusDuplicados)])
           @ (let n = length (filter (\<lambda>r. le (precio_venta r) (precio_compra r))
                                (drop_duplicates [] (rows raw_df)))
              in if n = 0 then [] else [(WARNING, PreciosInvalidos n)])
           @ [(INFO, TransformacionCompletada)],
           Some \<lparr>columns = assign_column ''nivel_stock''
                              (assign_column ''margen_ganancia'' (columns raw_df)),
                 rows = map (derive margin) (drop_duplicates [] (rows raw_df))\<rparr>))"
  apply (simp add: transform_product_data_def Let_def duplicated_any drop_duplicates_distinct
         filter_empty_conv derive_def[abs_def] categorizar_stock_def o_def filter_map)
  apply (auto simp: filter_empty_conv)
  done

lemmas ex_transform_defs =
  transform_product_data_def ex_dup1_def ex_dup2_def ex_dedup_def ex_dup_log_def ex_columns_def
  ex_r1_def ex_r1b_def mk_row_def required_columns_def assign_column_def
  categorizar_stock_def ex_margin_def ex_le_def Let_def

text \<open>
  C6 as stated fails on its clause that the number of dropped duplicates is counted
  and logged: a frame with one repeated row and a frame with two repeated rows of the
  same SKU give the same log, the fixed warning of line 107, and the same output.
\<close>

theorem dropped_count_not_logged:
  "transform_product_data ex_margin ex_le ex_dup1 = (ex_dup_log, Some ex_dedup)
   \<and> transform_product_data ex_margin ex_le ex_dup2 = (ex_dup_log, Some ex_dedup)
   \<and> length (rows ex_dup1) - length (rows ex_dedup) = 1
   \<and> length (rows ex_dup2) - length (rows ex_dedup) = 2"
  by (simp add: ex_transform_defs)

text \<open>
  C6, amended. The frame the transform returns has every SKU of the input exactly
  once, in the order of the input; each of its rows is the first input row of its SKU
  with the two derived columns set. The warning about duplicated SKUs is logged exactly
  when the input repeats a SKU (the number of rows dropped is not logged). An input
  without repeated SKUs loses no row, and the transform applied to its own output
  returns that output again, without the warning.
\<close>

theorem transform_keeps_first_of_each_sku:
  assumes "transform_product_data margin le raw_df = (lg, Some out)"
  shows "distinct (map sku (rows out))
       \<and> set (map sku (rows out)) = set (map sku (rows raw_df))
       \<and> subseq (map sku (rows out)) (map sku (rows raw_df))
       \<and> (\<forall>r \<in> set (rows out). \<exists>r0.
             find (\<lambda>x. sku x = sku r) (rows raw_df) = Some r0 \<and> r = derive margin r0)
       \<and> ((WARNING, SkusDuplicados) \<in> set lg \<longleftrightarrow> \<not> distinct (map sku (rows raw_df)))
       \<and> (distinct (map sku (rows raw_df)) \<longrightarrow> rows out = map (derive margin) (rows raw_df))
       \<and> (\<exists>lg'. transform_product_data margin le out = (lg', Some out)
              \<and> (WARNING, SkusDuplicados) \<notin> set lg')"
proof -
  let ?dd = "drop_duplicates [] (rows raw_df)"
  from assms have sk: "''sku'' \<in> set (columns raw_df)"
    and req: "set required_columns \<subseteq> set (columns raw_df)"
    and rows: "rows out = map (derive margin) ?dd"
    and cols: "columns out = assign_column ''nivel_stock''
                               (assign_column ''margen_ganancia'' (columns raw_df))"
    and lg: "(WARNING, SkusDuplicados) \<in> set lg \<longleftrightarrow> \<not> distinct (map sku (rows raw_df))"
    by (auto simp: transform_cases Let_def split: if_splits)
  have d: "distinct (map sku (rows out))"
    unfolding rows sku_map_derive by (rule distinct_drop_duplicates)
  have s: "set (map sku (rows out)) = set (map sku (rows raw_df))"
    unfolding rows sku_map_derive sku_drop_duplicates by simp
  have q: "subseq (map sku (rows out)) (map sku (rows raw_df))"
    unfolding rows sku_map_derive by (rule subseq_map) (rule subseq_drop_duplicates)
  have f: "\<exists>r0. find (\<lambda>x. sku x = sku r) (rows raw_df) = Some r0 \<and> r = derive margin r0"
    if "r \<in> set (rows out)" for r
  proof -
    from that rows obtain r0 where r0: "r0 \<in> set ?dd" "r = derive margin r0" by auto
    from drop_duplicates_first[OF r0(1)] r0(2) show ?thesis by (auto simp: sku_derive)
  qed
  have u: "rows out = map (derive margin) (rows raw_df)" if "distinct (map sku (rows raw_df))"
    using that rows by (simp add: drop_duplicates_distinct)
  have c2: "''sku'' \<in> set (columns out)" "set required_columns \<subseteq> set (columns out)"
           "assign_column ''nivel_stock'' (assign_column ''margen_ganancia'' (columns out))
              = columns out"
    using sk req unfolding cols
    by (auto simp: assign_column_def)
  have r2: "map (derive margin) (drop_duplicates [] (rows out)) = rows out"
    using d by (simp add: drop_duplicates_distinct) (simp add: rows derive_idem)
  have i: "\<exists>lg'. transform_product_data margin le out = (lg', Some out)
              \<and> (WARNING, SkusDuplicados) \<notin> set lg'"
    using c2 d r2 by (simp add: transform_cases[of margin le out] Let_def)
  from d s q f lg u i show ?thesis by blast
qed

theorem transform_keeps_first_of_each_sku_witness:
  "transform_product_data ex_margin ex_le ex_dup1 = (ex_dup_log, Some ex_dedup)
   \<and> map sku (rows ex_dup1) = [''AP001'', ''AP001'']
   \<and> map sku (rows ex_dedup) = [''AP001'']
   \<and> map nombre (rows ex_dedup) = [''Filtro Aceite Toyota Corolla'']
   \<and> (WARNING, SkusDuplicados) \<in> set ex_dup_log
   \<and> (\<exists>lg'. transform_product_data ex_margin ex_le ex_dedup = (lg', Some ex_dedup)
          \<and> (WARNING, SkusDuplicados) \<notin> set lg')"
proof -
  have h: "transform_product_data ex_margin ex_le ex_dup1 = (ex_dup_log, Some ex_dedup)"
    by (simp add: ex_transform_defs)
  have e: "map sku (rows ex_dup1) = [''AP001'', ''AP001'']"
          "map sku (rows ex_dedup) = [''AP001'']"
          "map nombre (rows ex_dedup) = [''Filtro Aceite Toyota Corolla'']"
          "(WARNING, SkusDuplicados) \<in> set ex_dup_log"
    by (simp_all add: ex_dup1_def ex_dedup_def ex_dup_log_def ex_r1_def ex_r1b_def mk_row_def)
  from transform_keeps_first_of_each_sku[OF h] h e show ?thesis by simp
qed

subsection \<open>Report\<close>






end
